theory Spec2Isabelle
  imports Complex_Main
begin

section \<open>Mind Flow: measurement validation and health score\<close>

text \<open>
  The embedded code is the validation and scoring module of
  \<^verbatim>\<open>src/my-app/src/App.jsx\<close> (\<^verbatim>\<open>validateVibeCheckIn\<close>, \<^verbatim>\<open>validateVibeTimestamps\<close>,
  \<^verbatim>\<open>validateHealthScore\<close>, \<^verbatim>\<open>computeHealthScore\<close>) and the two functions of the user
  interface in \<^verbatim>\<open>src/MindflowApp.jsx\<close> (\<^verbatim>\<open>validateCheckIn\<close>, \<^verbatim>\<open>computeHealthScore\<close>).

  A JavaScript number is modelled as a real; \<^verbatim>\<open>NaN\<close> and the infinities are outside
  the model. The validators compare numbers and do no arithmetic. The health score is
  embedded twice: in exact arithmetic, and with the rounding of double arithmetic taken
  as a parameter applied after every operation. Every
  argument is taken to have the type its documentation comment declares (a number, a
  string, an array of records). An error message, which the source builds as a string
  with the offending values spliced in, is a constructor carrying those values.
\<close>

subsection \<open>Numbers\<close>

text \<open>\<^verbatim>\<open>Number.isInteger(x)\<close> on a finite number.\<close>

definition isInteger :: "real \<Rightarrow> bool" where
  "isInteger x = (of_int \<lfloor>x\<rfloor> = x)"

text \<open>
  \<^verbatim>\<open>+x.toFixed(d)\<close>: the number \<open>n / 10^d\<close> closest to \<open>x\<close>, the larger \<open>n\<close> on a
  tie; a negative \<open>x\<close> is negated first and the sign put back, as
  \<^verbatim>\<open>Number.prototype.toFixed\<close> specifies.
\<close>

definition toFixed :: "nat \<Rightarrow> real \<Rightarrow> real" where
  "toFixed d x =
     (if x < 0 then - (of_int \<lfloor>(- x) * 10 ^ d + 1 / 2\<rfloor> / 10 ^ d)
      else of_int \<lfloor>x * 10 ^ d + 1 / 2\<rfloor> / 10 ^ d)"

subsection \<open>Objects used as lookup tables\<close>

text \<open>
  \<^verbatim>\<open>obj[key]\<close> on a plain object finds the object's own entry, or else a member
  inherited from \<^verbatim>\<open>Object.prototype\<close> (a function or object: truthy, with no field of
  the table's entries), or else \<^verbatim>\<open>undefined\<close>.
\<close>

datatype 'a js_prop = Own 'a | Inherited | Undefined

datatype js_exn = TypeError

definition Object_prototype_keys :: "string list" where
  "Object_prototype_keys =
     [''constructor'', ''hasOwnProperty'', ''isPrototypeOf'', ''propertyIsEnumerable'',
      ''toLocaleString'', ''toString'', ''valueOf'', ''__proto__'',
      ''__defineGetter__'', ''__defineSetter__'', ''__lookupGetter__'', ''__lookupSetter__'']"

definition fromEntries :: "(string \<times> 'a) list \<Rightarrow> (string \<rightharpoonup> 'a)" where
  "fromEntries es = fold (\<lambda>(k, v) m. m(k \<mapsto> v)) es Map.empty"

definition getProp :: "(string \<rightharpoonup> 'a) \<Rightarrow> string \<Rightarrow> 'a js_prop" where
  "getProp obj k =
     (case obj k of
        Some v \<Rightarrow> Own v
      | None \<Rightarrow> if k \<in> set Object_prototype_keys then Inherited else Undefined)"

subsection \<open>Validation results\<close>

text \<open>
  \<^verbatim>\<open>{ valid, errors }\<close> in the validation module, \<^verbatim>\<open>{ valid, error }\<close> in the user
  interface (\<^verbatim>\<open>error: null\<close> is \<open>None\<close>).
\<close>

record result =
  valid :: bool

record 'e validation = result +
  errors :: "'e list"

record 'e verdict = result +
  error :: "'e option"

subsection \<open>Scale registry of the validation module\<close>

text \<open>
  An entry of \<^verbatim>\<open>VIBE_ORDER\<close>; the fields are \<^verbatim>\<open>label\<close> and \<^verbatim>\<open>value\<close> in the source.
  The \<^verbatim>\<open>emoji\<close> and \<^verbatim>\<open>color\<close> fields are presentation only and no function below
  reads them.
\<close>

record vibe =
  vibe_label :: string
  vibe_value :: real

definition VIBE_ORDER :: "vibe list" where
  "VIBE_ORDER =
     [\<lparr>vibe_label = ''Terrible'', vibe_value = 1\<rparr>,
      \<lparr>vibe_label = ''Down'', vibe_value = 2\<rparr>,
      \<lparr>vibe_label = ''Neutral'', vibe_value = 3\<rparr>,
      \<lparr>vibe_label = ''Good'', vibe_value = 4\<rparr>,
      \<lparr>vibe_label = ''Great'', vibe_value = 5\<rparr>]"

definition VIBE_BY_LABEL :: "string \<rightharpoonup> vibe" where
  "VIBE_BY_LABEL = fromEntries (map (\<lambda>v. (vibe_label v, v)) VIBE_ORDER)"

subsection \<open>Check-in validator of the validation module\<close>

text \<open>
  The four messages of \<^verbatim>\<open>validateVibeCheckIn\<close>: \<^verbatim>\<open>[Ordinal violation]\<close> with the
  value, \<^verbatim>\<open>[Nominal violation]\<close> with the label, \<^verbatim>\<open>[Homomorphism violation]\<close> with
  the label, the canonical value and the stored value, \<^verbatim>\<open>[Empirical order violation]\<close>
  with the two registry values.
\<close>

datatype vibe_error =
    OrdinalViolation real
  | NominalViolation string
  | HomomorphismViolation string "real option" real
  | EmpiricalOrderViolation "real option" "real option"

text \<open>
  \<^verbatim>\<open>entry.value\<close>: the field of an own entry, \<^verbatim>\<open>undefined\<close> (\<open>None\<close>) on an inherited
  member, a \<^verbatim>\<open>TypeError\<close> on \<^verbatim>\<open>undefined\<close>.
\<close>

definition entryValue :: "vibe js_prop \<Rightarrow> js_exn + real option" where
  "entryValue p =
     (case p of
        Own e \<Rightarrow> Inr (Some (vibe_value e))
      | Inherited \<Rightarrow> Inr None
      | Undefined \<Rightarrow> Inl TypeError)"

text \<open>\<^verbatim>\<open>a >= b\<close>, which is false as soon as one side is \<^verbatim>\<open>undefined\<close>.\<close>

fun js_ge :: "real option \<Rightarrow> real option \<Rightarrow> bool" where
  "js_ge (Some a) (Some b) = (a \<ge> b)"
| "js_ge _ _ = False"

text \<open>
  \<^verbatim>\<open>validateVibeCheckIn({ moodValue, moodLabel })\<close>: parts (a), (b) and (c) push onto
  one array in turn. Part (c) reads \<^verbatim>\<open>.value\<close> of two registry lookups, which throws
  if a lookup is \<^verbatim>\<open>undefined\<close>; the exception is the \<open>Inl\<close> result.
\<close>

definition validateVibeCheckIn :: "real \<Rightarrow> string \<Rightarrow> js_exn + vibe_error validation" where
  "validateVibeCheckIn moodValue moodLabel =
     (let errs = [];
          errs = (if \<not> isInteger moodValue \<or> moodValue < 1 \<or> moodValue > 5
                  then errs @ [OrdinalViolation moodValue] else errs);
          canonicalEntry = getProp VIBE_BY_LABEL moodLabel;
          errs = (case canonicalEntry of
                    Undefined \<Rightarrow> errs @ [NominalViolation moodLabel]
                  | Own e \<Rightarrow>
                      if vibe_value e \<noteq> moodValue
                      then errs @ [HomomorphismViolation moodLabel (Some (vibe_value e)) moodValue]
                      else errs
                  | Inherited \<Rightarrow> errs @ [HomomorphismViolation moodLabel None moodValue])
      in case entryValue (getProp VIBE_BY_LABEL ''Terrible'') of
           Inl x \<Rightarrow> Inl x
         | Inr sad \<Rightarrow>
             (case entryValue (getProp VIBE_BY_LABEL ''Great'') of
                Inl x \<Rightarrow> Inl x
              | Inr happy \<Rightarrow>
                  (let errs = (if js_ge sad happy
                               then errs @ [EmpiricalOrderViolation sad happy] else errs)
                   in Inr \<lparr>valid = (length errs = 0), errors = errs\<rparr>)))"

subsection \<open>Health score of the validation module\<close>

record derived =
  healthScore :: real
  engagementTier :: string

record healthScoreRecord = derived +
  streakDays :: real
  vibeCheckIns :: real
  averageVibeScore :: real
  loginCount :: real

record breakdown =
  normStreak :: real
  normVibe :: real
  normLogins :: real
  normCheckins :: real

record computed = derived +
  breakdown :: breakdown

text \<open>
  The \<^verbatim>\<open>maxValues\<close> parameter; its fields are \<^verbatim>\<open>streakDays\<close>, \<^verbatim>\<open>vibeCheckIns\<close> and
  \<^verbatim>\<open>loginCount\<close> in the source. A ceiling of zero, where JavaScript divides to an
  infinity or \<^verbatim>\<open>NaN\<close>, is outside the model.
\<close>

record maxValues =
  max_streakDays :: real
  max_vibeCheckIns :: real
  max_loginCount :: real

definition defaultMaxValues :: maxValues where
  "defaultMaxValues = \<lparr>max_streakDays = 30, max_vibeCheckIns = 30, max_loginCount = 60\<rparr>"

text \<open>
  The four normalised components and their weighted sum, before \<^verbatim>\<open>toFixed\<close>, as
  \<^verbatim>\<open>computeHealthScore\<close> writes them, read in exact arithmetic.
\<close>

definition norms :: "real \<Rightarrow> real \<Rightarrow> real \<Rightarrow> real \<Rightarrow> maxValues \<Rightarrow> breakdown" where
  "norms sd vc av lc mv =
     \<lparr>normStreak = min (sd / max_streakDays mv) 1 * 100,
      normVibe = ((av - 1) / 4) * 100,
      normLogins = min (lc / max_loginCount mv) 1 * 100,
      normCheckins = min (vc / max_vibeCheckIns mv) 1 * 100\<rparr>"

definition composite :: "breakdown \<Rightarrow> real" where
  "composite b =
     normStreak b * 0.40 + normVibe b * 0.35 + normLogins b * 0.15 + normCheckins b * 0.10"

text \<open>
  \<^verbatim>\<open>computeHealthScore({streakDays, vibeCheckIns, averageVibeScore, loginCount, maxValues})\<close>
  in exact arithmetic; an absent \<^verbatim>\<open>maxValues\<close> (\<open>None\<close>) takes the default.
\<close>

definition computeHealthScore ::
    "real \<Rightarrow> real \<Rightarrow> real \<Rightarrow> real \<Rightarrow> maxValues option \<Rightarrow> computed" where
  "computeHealthScore sd vc av lc maxValues_opt =
     (let mv = (case maxValues_opt of None \<Rightarrow> defaultMaxValues | Some m \<Rightarrow> m);
          b = norms sd vc av lc mv;
          hs = toFixed 2 (composite b);
          tier = (if hs \<ge> 76 then ''Excellent''
                  else if hs \<ge> 51 then ''High''
                  else if hs \<ge> 26 then ''Moderate''
                  else ''Low'')
      in \<lparr>healthScore = hs, engagementTier = tier,
          breakdown = \<lparr>normStreak = toFixed 2 (normStreak b),
                       normVibe = toFixed 2 (normVibe b),
                       normLogins = toFixed 2 (normLogins b),
                       normCheckins = toFixed 2 (normCheckins b)\<rparr>\<rparr>)"

datatype health_error =
    IntervalViolation real
  | UnknownTier string
  | TierScoreMismatch string real real real
  | NonNegativeIntegerViolation string real
  | AverageVibeViolation real

definition tierBounds :: "string \<rightharpoonup> real \<times> real" where
  "tierBounds =
     fromEntries [(''Low'', (0, 25)), (''Moderate'', (26, 50)),
                  (''High'', (51, 75)), (''Excellent'', (76, 100))]"

text \<open>
  \<^verbatim>\<open>validateHealthScore(record)\<close>. The two \<^verbatim>\<open>typeof ... !== 'number'\<close> tests are
  false on a number and are left out. On a tier name inherited from
  \<^verbatim>\<open>Object.prototype\<close>, \<^verbatim>\<open>bounds[0]\<close> and \<^verbatim>\<open>bounds[1]\<close> are \<^verbatim>\<open>undefined\<close>, both
  comparisons are false and nothing is reported. The loop over the three counters runs
  in the order of the object literal.
\<close>

definition validateHealthScore :: "healthScoreRecord \<Rightarrow> health_error validation" where
  "validateHealthScore record =
     (let errs = [];
          errs = (if healthScore record < 0 \<or> healthScore record > 100
                  then errs @ [IntervalViolation (healthScore record)] else errs);
          errs = (case getProp tierBounds (engagementTier record) of
                    Undefined \<Rightarrow> errs @ [UnknownTier (engagementTier record)]
                  | Own bounds \<Rightarrow>
                      if healthScore record < fst bounds \<or> healthScore record > snd bounds
                      then errs @ [TierScoreMismatch (engagementTier record)
                                     (fst bounds) (snd bounds) (healthScore record)]
                      else errs
                  | Inherited \<Rightarrow> errs);
          errs = fold (\<lambda>(name, val) errs.
                    if \<not> isInteger val \<or> val < 0
                    then errs @ [NonNegativeIntegerViolation name val] else errs)
                  [(''streakDays'', streakDays record),
                   (''vibeCheckIns'', vibeCheckIns record),
                   (''loginCount'', loginCount record)] errs;
          errs = (if averageVibeScore record < 1 \<or> averageVibeScore record > 5
                  then errs @ [AverageVibeViolation (averageVibeScore record)] else errs)
      in \<lparr>valid = (length errs = 0), errors = errs\<rparr>)"

subsection \<open>The user interface's validator and score\<close>

text \<open>
  An entry of \<^verbatim>\<open>VIBE_SCALE\<close> (fields \<^verbatim>\<open>value\<close>, \<^verbatim>\<open>label\<close>) and of
  \<^verbatim>\<open>ENGAGEMENT_TIERS\<close> (fields \<^verbatim>\<open>label\<close>, \<^verbatim>\<open>min\<close>, \<^verbatim>\<open>max\<close>, \<^verbatim>\<open>color\<close>).
\<close>

definition VIBE_SCALE :: "vibe list" where
  "VIBE_SCALE =
     [\<lparr>vibe_label = ''Terrible'', vibe_value = 1\<rparr>,
      \<lparr>vibe_label = ''Down'', vibe_value = 2\<rparr>,
      \<lparr>vibe_label = ''Neutral'', vibe_value = 3\<rparr>,
      \<lparr>vibe_label = ''Good'', vibe_value = 4\<rparr>,
      \<lparr>vibe_label = ''Great'', vibe_value = 5\<rparr>]"

record tier =
  tier_label :: string
  tier_min :: real
  tier_max :: real
  tier_color :: string

definition ENGAGEMENT_TIERS :: "tier list" where
  "ENGAGEMENT_TIERS =
     [\<lparr>tier_label = ''Low'', tier_min = 0, tier_max = 25, tier_color = ''#ff6b8a''\<rparr>,
      \<lparr>tier_label = ''Moderate'', tier_min = 26, tier_max = 50, tier_color = ''#ffd166''\<rparr>,
      \<lparr>tier_label = ''High'', tier_min = 51, tier_max = 75, tier_color = ''#a8d8a8''\<rparr>,
      \<lparr>tier_label = ''Excellent'', tier_min = 76, tier_max = 100, tier_color = ''#5ec4b1''\<rparr>]"

datatype checkin_error =
    UnknownMoodLabel string
  | HomomorphismBroken string real real
  | OrdinalOutOfRange real

definition validateCheckIn :: "real \<Rightarrow> string \<Rightarrow> checkin_error verdict" where
  "validateCheckIn moodValue moodLabel =
     (case find (\<lambda>v. vibe_label v = moodLabel) VIBE_SCALE of
        None \<Rightarrow> \<lparr>valid = False, error = Some (UnknownMoodLabel moodLabel)\<rparr>
      | Some canonical \<Rightarrow>
          if vibe_value canonical \<noteq> moodValue
          then \<lparr>valid = False,
                error = Some (HomomorphismBroken moodLabel (vibe_value canonical) moodValue)\<rparr>
          else if moodValue < 1 \<or> moodValue > 5
          then \<lparr>valid = False, error = Some (OrdinalOutOfRange moodValue)\<rparr>
          else \<lparr>valid = True, error = None\<rparr>)"

text \<open>
  The tier lookup of the user interface's \<^verbatim>\<open>computeHealthScore\<close>:
  \<^verbatim>\<open>ENGAGEMENT_TIERS.find(t => score >= t.min && score <= t.max) || ENGAGEMENT_TIERS[0]\<close>.
  The source writes it inline; the name is the specification's.
\<close>

definition tierForScore :: "real \<Rightarrow> tier" where
  "tierForScore score =
     (case find (\<lambda>t. score \<ge> tier_min t \<and> score \<le> tier_max t) ENGAGEMENT_TIERS of
        Some t \<Rightarrow> t
      | None \<Rightarrow> ENGAGEMENT_TIERS ! 0)"

record ui_score =
  score :: real
  tier :: string
  tierColor :: string

text \<open>
  \<^verbatim>\<open>computeHealthScore({streakDays, vibeCheckIns, avgVibeScore, loginCount})\<close> of the user
  interface, in exact arithmetic: fixed ceilings 30, 30 and 60, one decimal place.
\<close>

definition ui_computeHealthScore :: "real \<Rightarrow> real \<Rightarrow> real \<Rightarrow> real \<Rightarrow> ui_score" where
  "ui_computeHealthScore sd vc av lc =
     (let nStreak = min (sd / 30) 1 * 100;
          nVibe = ((av - 1) / 4) * 100;
          nLogins = min (lc / 60) 1 * 100;
          nCheckins = min (vc / 30) 1 * 100;
          sc = toFixed 1 (nStreak * 0.40 + nVibe * 0.35 + nLogins * 0.15 + nCheckins * 0.10);
          t = tierForScore sc
      in \<lparr>score = sc, tier = tier_label t, tierColor = tier_color t\<rparr>)"

subsection \<open>The health score in double arithmetic\<close>

text \<open>
  JavaScript computes in binary64: every division, subtraction, multiplication and
  addition returns the double nearest to the exact result, a decimal literal such as
  \<^verbatim>\<open>0.40\<close> denotes the double nearest to it, and \<^verbatim>\<open>+x.toFixed(d)\<close> is the double
  nearest to the decimal that \<^verbatim>\<open>toFixed\<close> prints. That rounding is the parameter
  \<open>rnd\<close> of the definitions below, which follow the source operation by operation (the
  additions associate to the left). \<^verbatim>\<open>Math.min\<close> and the comparisons round nothing, and
  the literals 1, 4, 30, 60 and 100 are doubles. With the identity for \<open>rnd\<close> these are
  the definitions in exact arithmetic above.
\<close>

definition norms_rounded ::
    "(real \<Rightarrow> real) \<Rightarrow> real \<Rightarrow> real \<Rightarrow> real \<Rightarrow> real \<Rightarrow> maxValues \<Rightarrow> breakdown" where
  "norms_rounded rnd sd vc av lc mv =
     \<lparr>normStreak = rnd (min (rnd (sd / max_streakDays mv)) 1 * 100),
      normVibe = rnd (rnd (rnd (av - 1) / 4) * 100),
      normLogins = rnd (min (rnd (lc / max_loginCount mv)) 1 * 100),
      normCheckins = rnd (min (rnd (vc / max_vibeCheckIns mv)) 1 * 100)\<rparr>"

definition composite_rounded :: "(real \<Rightarrow> real) \<Rightarrow> breakdown \<Rightarrow> real" where
  "composite_rounded rnd b =
     rnd (rnd (rnd (rnd (normStreak b * rnd 0.40) + rnd (normVibe b * rnd 0.35))
               + rnd (normLogins b * rnd 0.15))
          + rnd (normCheckins b * rnd 0.10))"

definition computeHealthScore_rounded ::
    "(real \<Rightarrow> real) \<Rightarrow> real \<Rightarrow> real \<Rightarrow> real \<Rightarrow> real \<Rightarrow> maxValues option \<Rightarrow> computed" where
  "computeHealthScore_rounded rnd sd vc av lc maxValues_opt =
     (let mv = (case maxValues_opt of None \<Rightarrow> defaultMaxValues | Some m \<Rightarrow> m);
          b = norms_rounded rnd sd vc av lc mv;
          hs = rnd (toFixed 2 (composite_rounded rnd b));
          tier = (if hs \<ge> 76 then ''Excellent''
                  else if hs \<ge> 51 then ''High''
                  else if hs \<ge> 26 then ''Moderate''
                  else ''Low'')
      in \<lparr>healthScore = hs, engagementTier = tier,
          breakdown = \<lparr>normStreak = rnd (toFixed 2 (normStreak b)),
                       normVibe = rnd (toFixed 2 (normVibe b)),
                       normLogins = rnd (toFixed 2 (normLogins b)),
                       normCheckins = rnd (toFixed 2 (normCheckins b))\<rparr>\<rparr>)"

definition ui_computeHealthScore_rounded ::
    "(real \<Rightarrow> real) \<Rightarrow> real \<Rightarrow> real \<Rightarrow> real \<Rightarrow> real \<Rightarrow> ui_score" where
  "ui_computeHealthScore_rounded rnd sd vc av lc =
     (let nStreak = rnd (min (rnd (sd / 30)) 1 * 100);
          nVibe = rnd (rnd (rnd (av - 1) / 4) * 100);
          nLogins = rnd (min (rnd (lc / 60)) 1 * 100);
          nCheckins = rnd (min (rnd (vc / 30)) 1 * 100);
          sc = rnd (toFixed 1
                 (rnd (rnd (rnd (rnd (nStreak * rnd 0.40) + rnd (nVibe * rnd 0.35))
                           + rnd (nLogins * rnd 0.15))
                      + rnd (nCheckins * rnd 0.10))));
          t = tierForScore sc
      in \<lparr>score = sc, tier = tier_label t, tierColor = tier_color t\<rparr>)"


subsection \<open>Timestamp validator\<close>

text \<open>
  A check-in; \<^verbatim>\<open>recordedAt.getTime()\<close> is the instant in milliseconds, an integer for
  every valid \<^verbatim>\<open>Date\<close>.
\<close>

record checkIn =
  moodValue :: real
  moodLabel :: string
  recordedAt :: int

datatype timestamp_error = DuplicateTimestamp nat int

text \<open>The \<^verbatim>\<open>for\<close> loop runs \<open>i\<close> over \<open>1, ..., length - 1\<close>.\<close>

definition validateVibeTimestamps :: "checkIn list \<Rightarrow> timestamp_error validation" where
  "validateVibeTimestamps checkIns =
     (let errs = fold (\<lambda>i errs.
                    if recordedAt (checkIns ! i) = recordedAt (checkIns ! (i - 1))
                    then errs @ [DuplicateTimestamp i (recordedAt (checkIns ! i))]
                    else errs)
                  [1..<length checkIns] []
      in \<lparr>valid = (length errs = 0), errors = errs\<rparr>)"


subsection \<open>The rules of the check-in validator, one at a time\<close>

text \<open>
  The errors that part (a) and part (b) of \<^verbatim>\<open>validateVibeCheckIn\<close> push, each taken
  alone, and the two rules as the specification words them: the value is an integer in
  [1, 5]; the label is in the registry and its canonical value is the given value.
\<close>

definition rangeErrors :: "real \<Rightarrow> vibe_error list" where
  "rangeErrors v = (if isInteger v \<and> 1 \<le> v \<and> v \<le> 5 then [] else [OrdinalViolation v])"

definition labelErrors :: "real \<Rightarrow> string \<Rightarrow> vibe_error list" where
  "labelErrors v l =
     (case getProp VIBE_BY_LABEL l of
        Undefined \<Rightarrow> [NominalViolation l]
      | Own e \<Rightarrow>
          if vibe_value e \<noteq> v then [HomomorphismViolation l (Some (vibe_value e)) v] else []
      | Inherited \<Rightarrow> [HomomorphismViolation l None v])"

definition rangeRule :: "real \<Rightarrow> bool" where
  "rangeRule v = (isInteger v \<and> 1 \<le> v \<and> v \<le> 5)"

definition labelRule :: "real \<Rightarrow> string \<Rightarrow> bool" where
  "labelRule v l = (\<exists>e \<in> set VIBE_ORDER. vibe_label e = l \<and> vibe_value e = v)"

fun isRangeError :: "vibe_error \<Rightarrow> bool" where
  "isRangeError (OrdinalViolation _) = True"
| "isRangeError _ = False"

fun isLabelError :: "vibe_error \<Rightarrow> bool" where
  "isLabelError (NominalViolation _) = True"
| "isLabelError (HomomorphismViolation _ _ _) = True"
| "isLabelError _ = False"

section \<open>Properties\<close>

subsection \<open>Rounding\<close>

lemma toFixed_mono: "x \<le> y \<Longrightarrow> toFixed d x \<le> toFixed d y"
proof -
  assume xy: "x \<le> y"
  have pos: "(0::real) < 10 ^ d" by simp
  consider (nn) "0 \<le> x" | (mixed) "x < 0" "0 \<le> y" | (neg) "y < 0" using xy by linarith
  then show ?thesis
  proof cases
    case nn
    then have "0 \<le> y" using xy by simp
    have "x * 10 ^ d + 1 / 2 \<le> y * 10 ^ d + 1 / 2" using xy pos by simp
    then have "\<lfloor>x * 10 ^ d + 1 / 2\<rfloor> \<le> \<lfloor>y * 10 ^ d + 1 / 2\<rfloor>" by (rule floor_mono)
    then have "real_of_int \<lfloor>x * 10 ^ d + 1 / 2\<rfloor> / 10 ^ d
                 \<le> real_of_int \<lfloor>y * 10 ^ d + 1 / 2\<rfloor> / 10 ^ d"
      using pos by (simp add: divide_right_mono)
    then show ?thesis using nn \<open>0 \<le> y\<close> by (simp add: toFixed_def)
  next
    case mixed
    have "x * 10 ^ d \<le> 0" using mixed pos by (simp add: mult_le_0_iff)
    then have "0 \<le> (- x) * 10 ^ d + 1 / 2" by simp
    then have a: "0 \<le> \<lfloor>(- x) * 10 ^ d + 1 / 2\<rfloor>" by simp
    have "0 \<le> y * 10 ^ d + 1 / 2" using mixed by simp
    then have b: "0 \<le> \<lfloor>y * 10 ^ d + 1 / 2\<rfloor>" by simp
    have "toFixed d x \<le> 0" using mixed a by (simp add: toFixed_def)
    moreover have "0 \<le> toFixed d y" using mixed b by (simp add: toFixed_def)
    ultimately show ?thesis by linarith
  next
    case neg
    then have "x < 0" using xy by simp
    have "(- y) * 10 ^ d + 1 / 2 \<le> (- x) * 10 ^ d + 1 / 2" using xy pos by simp
    then have "\<lfloor>(- y) * 10 ^ d + 1 / 2\<rfloor> \<le> \<lfloor>(- x) * 10 ^ d + 1 / 2\<rfloor>" by (rule floor_mono)
    then have "real_of_int \<lfloor>(- y) * 10 ^ d + 1 / 2\<rfloor> / 10 ^ d
                 \<le> real_of_int \<lfloor>(- x) * 10 ^ d + 1 / 2\<rfloor> / 10 ^ d"
      using pos by (simp add: divide_right_mono)
    then show ?thesis using neg \<open>x < 0\<close> by (simp add: toFixed_def)
  qed
qed



subsection \<open>Normalisation and the weighted sum under a monotone rounding\<close>


lemma ui_computeHealthScore_rounded_exact:
  "ui_computeHealthScore_rounded (\<lambda>x. x) sd vc av lc = ui_computeHealthScore sd vc av lc"
  by (simp add: ui_computeHealthScore_rounded_def ui_computeHealthScore_def Let_def)

lemma rnd_nonneg: "mono rnd \<Longrightarrow> rnd 0 = 0 \<Longrightarrow> 0 \<le> x \<Longrightarrow> 0 \<le> rnd (x::real)"
  using monoD [of rnd 0 x] by simp

lemma norm_rounded_mono:
  fixes rnd :: "real \<Rightarrow> real"
  assumes "mono rnd" "0 < c" "a \<le> b"
  shows "rnd (min (rnd (a / c)) 1 * 100) \<le> rnd (min (rnd (b / c)) 1 * (100::real))"
proof -
  have "a / c \<le> b / c" using assms(2,3) by (simp add: divide_right_mono)
  then have "rnd (a / c) \<le> rnd (b / c)" using assms(1) by (rule monoD [rotated])
  then have "min (rnd (a / c)) 1 * 100 \<le> min (rnd (b / c)) 1 * 100"
    by (intro mult_right_mono min.mono) simp_all
  then show ?thesis using assms(1) by (rule monoD [rotated])
qed

lemma vibe_rounded_mono:
  fixes rnd :: "real \<Rightarrow> real"
  assumes "mono rnd" "a \<le> b"
  shows "rnd (rnd (rnd (a - 1) / 4) * 100) \<le> rnd (rnd (rnd (b - 1) / 4) * (100::real))"
proof -
  have "a - 1 \<le> b - 1" using assms(2) by simp
  then have "rnd (a - 1) \<le> rnd (b - 1)" using assms(1) by (rule monoD [rotated])
  then have "rnd (a - 1) / 4 \<le> rnd (b - 1) / 4" by simp
  then have "rnd (rnd (a - 1) / 4) \<le> rnd (rnd (b - 1) / 4)" using assms(1) by (rule monoD [rotated])
  then have "rnd (rnd (a - 1) / 4) * 100 \<le> rnd (rnd (b - 1) / 4) * 100" by simp
  then show ?thesis using assms(1) by (rule monoD [rotated])
qed

lemma weighted_rounded_mono:
  fixes rnd :: "real \<Rightarrow> real"
  assumes m: "mono rnd" and z: "rnd 0 = 0"
    and "a \<le> a'" "b \<le> b'" "c \<le> c'" "e \<le> e'"
  shows "rnd (rnd (rnd (rnd (a * rnd 0.40) + rnd (b * rnd 0.35)) + rnd (c * rnd 0.15))
              + rnd (e * rnd 0.10))
       \<le> rnd (rnd (rnd (rnd (a' * rnd 0.40) + rnd (b' * rnd 0.35)) + rnd (c' * rnd 0.15))
              + rnd (e' * rnd (0.10::real)))"
proof -
  have M: "\<And>x y. x \<le> y \<Longrightarrow> rnd x \<le> rnd y" using m by (rule monoD)
  have w: "0 \<le> rnd 0.40" "0 \<le> rnd 0.35" "0 \<le> rnd 0.15" "0 \<le> rnd 0.10"
    using m z by (simp_all add: rnd_nonneg)
  have 1: "rnd (a * rnd 0.40) \<le> rnd (a' * rnd 0.40)"
    using assms(3) w(1) by (intro M mult_right_mono)
  have 2: "rnd (b * rnd 0.35) \<le> rnd (b' * rnd 0.35)"
    using assms(4) w(2) by (intro M mult_right_mono)
  have 3: "rnd (c * rnd 0.15) \<le> rnd (c' * rnd 0.15)"
    using assms(5) w(3) by (intro M mult_right_mono)
  have 4: "rnd (e * rnd 0.10) \<le> rnd (e' * rnd 0.10)"
    using assms(6) w(4) by (intro M mult_right_mono)
  show ?thesis
    by (intro M add_mono 1 2 3 4)
qed

lemma healthScore_rounded_eq:
  "healthScore (computeHealthScore_rounded rnd sd vc av lc None) =
     rnd (toFixed 2 (composite_rounded rnd (norms_rounded rnd sd vc av lc defaultMaxValues)))"
  by (simp add: computeHealthScore_rounded_def Let_def)

lemma ui_score_rounded_eq:
  "score (ui_computeHealthScore_rounded rnd sd vc av lc) =
     rnd (toFixed 1 (composite_rounded rnd (norms_rounded rnd sd vc av lc defaultMaxValues)))"
  by (simp add: ui_computeHealthScore_rounded_def Let_def composite_rounded_def
      norms_rounded_def defaultMaxValues_def)

lemma composite_rounded_mono:
  assumes "mono rnd" "rnd 0 = 0" "sd \<le> sd'" "vc \<le> vc'" "av \<le> av'" "lc \<le> lc'"
  shows "composite_rounded rnd (norms_rounded rnd sd vc av lc defaultMaxValues)
           \<le> composite_rounded rnd (norms_rounded rnd sd' vc' av' lc' defaultMaxValues)"
  unfolding norms_rounded_def composite_rounded_def defaultMaxValues_def
  apply (simp only: breakdown.select_convs maxValues.select_convs)
  apply (intro weighted_rounded_mono [OF assms(1,2)] norm_rounded_mono [OF assms(1)]
      vibe_rounded_mono [OF assms(1)] assms)
  apply simp_all
  done

lemma healthScore_rounded_mono:
  assumes "mono rnd" "rnd 0 = 0" "sd \<le> sd'" "vc \<le> vc'" "av \<le> av'" "lc \<le> lc'"
  shows "healthScore (computeHealthScore_rounded rnd sd vc av lc None)
           \<le> healthScore (computeHealthScore_rounded rnd sd' vc' av' lc' None)"
  unfolding healthScore_rounded_eq
  by (intro monoD [OF assms(1)] toFixed_mono composite_rounded_mono [OF assms])

lemma ui_score_rounded_mono:
  assumes "mono rnd" "rnd 0 = 0" "sd \<le> sd'" "vc \<le> vc'" "av \<le> av'" "lc \<le> lc'"
  shows "score (ui_computeHealthScore_rounded rnd sd vc av lc)
           \<le> score (ui_computeHealthScore_rounded rnd sd' vc' av' lc')"
  unfolding ui_score_rounded_eq
  by (intro monoD [OF assms(1)] toFixed_mono composite_rounded_mono [OF assms])

lemma mono_toFixed: "mono (toFixed d)"
  by (intro monoI toFixed_mono)

lemma toFixed_zero: "toFixed d 0 = 0"
  by (simp add: toFixed_def)









subsection \<open>The check-in validator of the validation module\<close>

lemma VIBE_BY_LABEL_eq:
  "VIBE_BY_LABEL l =
     (if l = ''Great'' then Some \<lparr>vibe_label = ''Great'', vibe_value = 5\<rparr>
      else if l = ''Good'' then Some \<lparr>vibe_label = ''Good'', vibe_value = 4\<rparr>
      else if l = ''Neutral'' then Some \<lparr>vibe_label = ''Neutral'', vibe_value = 3\<rparr>
      else if l = ''Down'' then Some \<lparr>vibe_label = ''Down'', vibe_value = 2\<rparr>
      else if l = ''Terrible'' then Some \<lparr>vibe_label = ''Terrible'', vibe_value = 1\<rparr>
      else None)"
  by (simp add: VIBE_BY_LABEL_def VIBE_ORDER_def fromEntries_def)

lemma sad_value: "entryValue (getProp VIBE_BY_LABEL ''Terrible'') = Inr (Some 1)"
  by (simp add: entryValue_def getProp_def VIBE_BY_LABEL_eq)

lemma happy_value: "entryValue (getProp VIBE_BY_LABEL ''Great'') = Inr (Some 5)"
  by (simp add: entryValue_def getProp_def VIBE_BY_LABEL_eq)

lemma validateVibeCheckIn_eq:
  "validateVibeCheckIn v l =
     Inr \<lparr>valid = (rangeErrors v = [] \<and> labelErrors v l = []),
          errors = rangeErrors v @ labelErrors v l\<rparr>"
  unfolding validateVibeCheckIn_def Let_def sad_value happy_value rangeErrors_def
    labelErrors_def
  by (auto split: js_prop.splits)

lemma registry_pairs:
  "(\<exists>e \<in> set VIBE_ORDER. vibe_label e = l \<and> vibe_value e = v) \<longleftrightarrow>
     (l = ''Terrible'' \<and> v = 1 \<or> l = ''Down'' \<and> v = 2 \<or> l = ''Neutral'' \<and> v = 3 \<or>
      l = ''Good'' \<and> v = 4 \<or> l = ''Great'' \<and> v = 5)"
  by (simp add: VIBE_ORDER_def eq_commute [of _ l])

lemma labelErrors_empty_cases:
  "labelErrors v l = [] \<longleftrightarrow>
     (l = ''Terrible'' \<and> v = 1 \<or> l = ''Down'' \<and> v = 2 \<or> l = ''Neutral'' \<and> v = 3 \<or>
      l = ''Good'' \<and> v = 4 \<or> l = ''Great'' \<and> v = 5)"
  by (simp add: labelErrors_def getProp_def VIBE_BY_LABEL_eq)

lemma labelErrors_empty_iff:
  "labelErrors v l = [] \<longleftrightarrow> (\<exists>e \<in> set VIBE_ORDER. vibe_label e = l \<and> vibe_value e = v)"
  by (simp only: registry_pairs labelErrors_empty_cases)

lemma length_labelErrors: "length (labelErrors v l) \<le> 1"
  by (simp add: labelErrors_def split: js_prop.splits)

lemma length_rangeErrors: "length (rangeErrors v) \<le> 1"
  by (simp add: rangeErrors_def)

lemma validateCheckIn_valid_cases:
  "valid (validateCheckIn v l) \<longleftrightarrow>
     (l = ''Terrible'' \<and> v = 1 \<or> l = ''Down'' \<and> v = 2 \<or> l = ''Neutral'' \<and> v = 3 \<or>
      l = ''Good'' \<and> v = 4 \<or> l = ''Great'' \<and> v = 5)"
  by (simp add: validateCheckIn_def VIBE_SCALE_def eq_commute [of _ l])

lemma validateCheckIn_valid_iff: "valid (validateCheckIn v l) \<longleftrightarrow> labelRule v l"
  by (simp only: validateCheckIn_valid_cases labelRule_def registry_pairs)

lemma labelRule_rangeRule: "labelRule v l \<Longrightarrow> rangeRule v"
  unfolding labelRule_def registry_pairs rangeRule_def isInteger_def
  by (elim disjE conjE) simp_all

text \<open>
  Claim C2, as amended. The claim holds of \<^verbatim>\<open>validateVibeCheckIn\<close>, the validator of
  the validation module, which returns an error list: for every value and label it
  returns (it does not throw), and its one result holds the error of every violated
  rule: a range error is in the list exactly when the value is not an integer in
  [1, 5], whatever the label; a label or homomorphism error is in the list exactly when
  the label is not a registry label whose canonical value is the given value, whatever
  the range check found; the list has one element for each of the two that is violated;
  and \<open>valid\<close> holds exactly when the list is empty. The user interface's
  \<^verbatim>\<open>validateCheckIn\<close> accepts the same pairs, and its result is valid exactly when its
  single error is null; it reports the first failed test only (see the counterexample).
\<close>

theorem validateVibeCheckIn_reports_every_violation:
  "\<exists>r. validateVibeCheckIn v l = Inr r
       \<and> (valid r \<longleftrightarrow> errors r = [])
       \<and> (OrdinalViolation v \<in> set (errors r) \<longleftrightarrow> \<not> rangeRule v)
       \<and> ((\<exists>e \<in> set (errors r). isRangeError e) \<longleftrightarrow> \<not> rangeRule v)
       \<and> ((\<exists>e \<in> set (errors r). isLabelError e) \<longleftrightarrow> \<not> labelRule v l)
       \<and> length (errors r) = (if rangeRule v then 0 else 1) + (if labelRule v l then 0 else 1)
       \<and> (valid (validateCheckIn v l) \<longleftrightarrow> valid r)
       \<and> (valid (validateCheckIn v l) \<longleftrightarrow> error (validateCheckIn v l) = None)"
proof -
  have r: "rangeErrors v = (if rangeRule v then [] else [OrdinalViolation v])"
    by (simp add: rangeErrors_def rangeRule_def)
  have l0: "labelErrors v l = [] \<longleftrightarrow> labelRule v l"
    by (simp add: labelErrors_empty_iff labelRule_def)
  have l1: "\<forall>e \<in> set (labelErrors v l). isLabelError e"
    by (simp add: labelErrors_def split: js_prop.splits)
  have l2: "length (labelErrors v l) = (if labelRule v l then 0 else 1)"
    using l0 length_labelErrors [of v l] by (cases "labelErrors v l") auto
  have l3: "(\<exists>e \<in> set (labelErrors v l). isLabelError e) \<longleftrightarrow> \<not> labelRule v l"
    using l0 l1 by (cases "labelErrors v l") auto
  have l4: "\<forall>e \<in> set (labelErrors v l). \<not> isRangeError e"
    by (simp add: labelErrors_def split: js_prop.splits)
  have l5: "OrdinalViolation v \<notin> set (labelErrors v l)"
    using l4 by fastforce
  have u1: "valid (validateCheckIn v l) \<longleftrightarrow> rangeRule v \<and> labelRule v l"
    using validateCheckIn_valid_iff [of v l] labelRule_rangeRule [of v l] by blast
  have u2: "valid (validateCheckIn v l) \<longleftrightarrow> error (validateCheckIn v l) = None"
    by (simp add: validateCheckIn_def split: option.splits)
  show ?thesis
    unfolding validateVibeCheckIn_eq
    using l0 l2 l3 l4 l5 u1 u2 by (simp add: r)
qed

text \<open>At value 0 and label \<^verbatim>\<open>Sad\<close> both rules are violated and both errors are returned.\<close>

theorem validateVibeCheckIn_reports_every_violation_witness:
  "\<exists>r. validateVibeCheckIn 0 ''Sad'' = Inr r \<and> \<not> valid r
       \<and> OrdinalViolation 0 \<in> set (errors r) \<and> length (errors r) = 2"
  using validateVibeCheckIn_reports_every_violation [of 0 "''Sad''"]
  by (auto simp add: rangeRule_def labelRule_def VIBE_ORDER_def isInteger_def)

text \<open>
  Claim C2 as stated fails for the user interface's \<^verbatim>\<open>validateCheckIn\<close>: at value 0
  and label \<^verbatim>\<open>Sad\<close> the value is below 1 and the label is unknown, and the result
  carries the unknown-label error alone.
\<close>

theorem validateCheckIn_stops_at_first_violation:
  "(0::real) < 1
   \<and> find (\<lambda>e. vibe_label e = ''Sad'') VIBE_SCALE = None
   \<and> validateCheckIn 0 ''Sad'' = \<lparr>valid = False, error = Some (UnknownMoodLabel ''Sad'')\<rparr>
   \<and> error (validateCheckIn 0 ''Sad'') \<noteq> Some (OrdinalOutOfRange 0)"
  by (simp add: validateCheckIn_def VIBE_SCALE_def)

text \<open>
  Claim C3, as amended. At value 6 and label \<^verbatim>\<open>Great\<close> the result of
  \<^verbatim>\<open>validateVibeCheckIn\<close> is invalid and its error list holds the out-of-range error
  for 6 (followed by the homomorphism error, since \<^verbatim>\<open>Great\<close> maps to 5). The user
  interface's \<^verbatim>\<open>validateCheckIn\<close> returns an invalid result there too, whose one
  error is the homomorphism error.
\<close>

theorem validateVibeCheckIn_six_Great:
  "validateVibeCheckIn 6 ''Great'' =
     Inr \<lparr>valid = False,
          errors = [OrdinalViolation 6, HomomorphismViolation ''Great'' (Some 5) 6]\<rparr>
   \<and> validateCheckIn 6 ''Great'' =
       \<lparr>valid = False, error = Some (HomomorphismBroken ''Great'' 5 6)\<rparr>"
  by (simp add: validateVibeCheckIn_def Let_def entryValue_def getProp_def VIBE_BY_LABEL_eq
      isInteger_def validateCheckIn_def VIBE_SCALE_def)

text \<open>Both results are invalid, and the range error is among the errors of the first.\<close>

theorem validateVibeCheckIn_six_Great_witness:
  "(\<exists>r. validateVibeCheckIn 6 ''Great'' = Inr r \<and> \<not> valid r
       \<and> OrdinalViolation 6 \<in> set (errors r))
   \<and> \<not> valid (validateCheckIn 6 ''Great'')"
  using validateVibeCheckIn_six_Great by simp

text \<open>
  Claim C3 as stated fails for the user interface's \<^verbatim>\<open>validateCheckIn\<close>: at value 6
  and label \<^verbatim>\<open>Great\<close> its error is not the out-of-range error.
\<close>

theorem validateCheckIn_six_Great_no_range_error:
  "\<not> valid (validateCheckIn 6 ''Great'')
   \<and> error (validateCheckIn 6 ''Great'') = Some (HomomorphismBroken ''Great'' 5 6)
   \<and> error (validateCheckIn 6 ''Great'') \<noteq> Some (OrdinalOutOfRange 6)"
  by (simp add: validateCheckIn_def VIBE_SCALE_def)

text \<open>
  Claim C10. The registry holds 1 for \<^verbatim>\<open>Terrible\<close> and 5 for \<^verbatim>\<open>Great\<close>, so the
  comparison of part (c) is false; for every input the validator returns a result with
  no empirical-order error in it and with at most two errors.
\<close>

theorem registry_self_check_never_fails:
  "entryValue (getProp VIBE_BY_LABEL ''Terrible'') = Inr (Some 1)
   \<and> entryValue (getProp VIBE_BY_LABEL ''Great'') = Inr (Some 5)
   \<and> \<not> js_ge (Some 1) (Some 5)
   \<and> (\<exists>r. validateVibeCheckIn v l = Inr r
          \<and> (\<forall>a b. EmpiricalOrderViolation a b \<notin> set (errors r))
          \<and> length (errors r) \<le> 2)"
proof -
  have "\<forall>a b. EmpiricalOrderViolation a b \<notin> set (rangeErrors v)"
    by (simp add: rangeErrors_def)
  moreover have "\<forall>a b. EmpiricalOrderViolation a b \<notin> set (labelErrors v l)"
    by (simp add: labelErrors_def split: js_prop.splits)
  moreover have "length (rangeErrors v @ labelErrors v l) \<le> 2"
    using length_rangeErrors [of v] length_labelErrors [of v l] by simp
  ultimately show ?thesis
    by (simp add: validateVibeCheckIn_eq sad_value happy_value)
qed

text \<open>At value 3 and label \<^verbatim>\<open>Neutral\<close>.\<close>

theorem registry_self_check_never_fails_witness:
  "\<exists>r. validateVibeCheckIn 3 ''Neutral'' = Inr r \<and> length (errors r) \<le> 2
       \<and> EmpiricalOrderViolation (Some 1) (Some 5) \<notin> set (errors r)"
  using registry_self_check_never_fails [of 3 "''Neutral''"] by auto

subsection \<open>The health score\<close>

text \<open>
  Claim C4. For streakDays = 10, vibeCheckIns = 20, averageVibeScore = 3.8 and
  loginCount = 30 with the default ceilings, the normalised components are 100/3, 70, 50
  and 200/3, their weighted sum is exactly 52, the returned score is 52 with tier
  \<^verbatim>\<open>High\<close>, and the breakdown reports 33.33, 70, 50 and 66.67. The user interface's
  variant returns 52 and \<^verbatim>\<open>High\<close> as well.
\<close>

theorem computeHealthScore_worked_example:
  "norms 10 20 3.8 30 defaultMaxValues =
     \<lparr>normStreak = 100 / 3, normVibe = 70, normLogins = 50, normCheckins = 200 / 3\<rparr>
   \<and> composite (norms 10 20 3.8 30 defaultMaxValues) = 52
   \<and> computeHealthScore 10 20 3.8 30 None =
       \<lparr>healthScore = 52, engagementTier = ''High'',
        breakdown = \<lparr>normStreak = 33.33, normVibe = 70, normLogins = 50, normCheckins = 66.67\<rparr>\<rparr>
   \<and> ui_computeHealthScore 10 20 3.8 30 =
       \<lparr>score = 52, tier = ''High'', tierColor = ''#a8d8a8''\<rparr>"
proof -
  have "norms 10 20 3.8 30 defaultMaxValues =
     \<lparr>normStreak = 100 / 3, normVibe = 70, normLogins = 50, normCheckins = 200 / 3\<rparr>"
    by (simp add: norms_def defaultMaxValues_def)
  moreover have "composite (norms 10 20 3.8 30 defaultMaxValues) = 52"
    by (simp add: norms_def defaultMaxValues_def composite_def)
  moreover have "computeHealthScore 10 20 3.8 30 None =
       \<lparr>healthScore = 52, engagementTier = ''High'',
        breakdown = \<lparr>normStreak = 33.33, normVibe = 70, normLogins = 50, normCheckins = 66.67\<rparr>\<rparr>"
    by (simp add: computeHealthScore_def Let_def norms_def defaultMaxValues_def composite_def
        toFixed_def)
  moreover have "ui_computeHealthScore 10 20 3.8 30 =
       \<lparr>score = 52, tier = ''High'', tierColor = ''#a8d8a8''\<rparr>"
    by (simp add: ui_computeHealthScore_def Let_def toFixed_def tierForScore_def
        ENGAGEMENT_TIERS_def)
  ultimately show ?thesis by (simp only: simp_thms)
qed

text \<open>The score and the tier of the example, read off the result.\<close>

theorem computeHealthScore_worked_example_witness:
  "healthScore (computeHealthScore 10 20 3.8 30 None) = 52
   \<and> engagementTier (computeHealthScore 10 20 3.8 30 None) = ''High''"
  using computeHealthScore_worked_example by simp

text \<open>
  Claim C5. With the default ceilings, raising any one of the four inputs from \<open>a\<close> to
  \<open>b\<close> while the other three stay fixed never lowers the health score, in the
  validation module and in the user interface's variant. The score is the one computed
  in double arithmetic, for every rounding \<open>rnd\<close> that is monotone and returns 0 at 0,
  as rounding to the nearest double is; the identity gives the score in exact
  arithmetic.
\<close>

theorem healthScore_monotone:
  assumes "mono rnd" "rnd 0 = 0" "a \<le> b"
  shows "healthScore (computeHealthScore_rounded rnd a vc av lc None)
           \<le> healthScore (computeHealthScore_rounded rnd b vc av lc None)
       \<and> healthScore (computeHealthScore_rounded rnd sd a av lc None)
           \<le> healthScore (computeHealthScore_rounded rnd sd b av lc None)
       \<and> healthScore (computeHealthScore_rounded rnd sd vc a lc None)
           \<le> healthScore (computeHealthScore_rounded rnd sd vc b lc None)
       \<and> healthScore (computeHealthScore_rounded rnd sd vc av a None)
           \<le> healthScore (computeHealthScore_rounded rnd sd vc av b None)
       \<and> score (ui_computeHealthScore_rounded rnd a vc av lc)
           \<le> score (ui_computeHealthScore_rounded rnd b vc av lc)
       \<and> score (ui_computeHealthScore_rounded rnd sd a av lc)
           \<le> score (ui_computeHealthScore_rounded rnd sd b av lc)
       \<and> score (ui_computeHealthScore_rounded rnd sd vc a lc)
           \<le> score (ui_computeHealthScore_rounded rnd sd vc b lc)
       \<and> score (ui_computeHealthScore_rounded rnd sd vc av a)
           \<le> score (ui_computeHealthScore_rounded rnd sd vc av b)"
  using assms
  by (intro conjI healthScore_rounded_mono [OF assms(1,2)] ui_score_rounded_mono [OF assms(1,2)])
    simp_all

text \<open>
  With rounding to two decimals after every operation (monotone, 0 at 0, and not the
  identity): raising one input from 5 to 10, for the streak, the check-ins and the
  logins.
\<close>

theorem healthScore_monotone_witness:
  "mono (toFixed 2) \<and> toFixed 2 0 = 0 \<and> (5::real) \<le> 10
   \<and> healthScore (computeHealthScore_rounded (toFixed 2) 5 20 3 30 None)
       \<le> healthScore (computeHealthScore_rounded (toFixed 2) 10 20 3 30 None)
   \<and> healthScore (computeHealthScore_rounded (toFixed 2) 7 5 3 30 None)
       \<le> healthScore (computeHealthScore_rounded (toFixed 2) 7 10 3 30 None)
   \<and> score (ui_computeHealthScore_rounded (toFixed 2) 7 20 3 5)
       \<le> score (ui_computeHealthScore_rounded (toFixed 2) 7 20 3 10)"
  using healthScore_monotone [where rnd = "toFixed 2" and a = 5 and b = 10 and sd = 7 and vc = 20 and av = 3
      and lc = 30]
    mono_toFixed [of 2] toFixed_zero [of 2]
  by simp



lemma tierBounds_eq:
  "tierBounds t =
     (if t = ''Excellent'' then Some (76, 100)
      else if t = ''High'' then Some (51, 75)
      else if t = ''Moderate'' then Some (26, 50)
      else if t = ''Low'' then Some (0, 25)
      else None)"
  by (simp add: tierBounds_def fromEntries_def)

text \<open>
  Claim C1. The claim says that the record assembled from a computed score and tier and
  the four inputs always passes \<^verbatim>\<open>validateHealthScore\<close>. At streakDays = 0,
  vibeCheckIns = 24, averageVibeScore = 3, loginCount = 0 (an input within the contract)
  the computed score is 25.5 and the computed tier \<^verbatim>\<open>Low\<close>; the validator rejects
  that record with a tier-score mismatch, since 25.5 is above the 25 it allows for
  \<^verbatim>\<open>Low\<close>.
\<close>

theorem computed_record_fails_validation:
  "computeHealthScore 0 24 3 0 None =
     \<lparr>healthScore = 25.5, engagementTier = ''Low'',
      breakdown = \<lparr>normStreak = 0, normVibe = 50, normLogins = 0, normCheckins = 80\<rparr>\<rparr>
   \<and> validateHealthScore
        \<lparr>healthScore = healthScore (computeHealthScore 0 24 3 0 None),
         engagementTier = engagementTier (computeHealthScore 0 24 3 0 None),
         streakDays = 0, vibeCheckIns = 24, averageVibeScore = 3, loginCount = 0\<rparr> =
       \<lparr>valid = False, errors = [TierScoreMismatch ''Low'' 0 25 25.5]\<rparr>"
proof -
  have c: "computeHealthScore 0 24 3 0 None =
     \<lparr>healthScore = 25.5, engagementTier = ''Low'',
      breakdown = \<lparr>normStreak = 0, normVibe = 50, normLogins = 0, normCheckins = 80\<rparr>\<rparr>"
    by (simp add: computeHealthScore_def Let_def norms_def defaultMaxValues_def composite_def
        toFixed_def)
  have "validateHealthScore
        \<lparr>healthScore = 25.5, engagementTier = ''Low'',
         streakDays = 0, vibeCheckIns = 24, averageVibeScore = 3, loginCount = 0\<rparr> =
       \<lparr>valid = False, errors = [TierScoreMismatch ''Low'' 0 25 25.5]\<rparr>"
    by (simp add: validateHealthScore_def Let_def getProp_def tierBounds_eq isInteger_def)
  then show ?thesis by (simp add: c)
qed

text \<open>Read off the two results: the computed record is not valid.\<close>

theorem computed_record_fails_validation_witness:
  "healthScore (computeHealthScore 0 24 3 0 None) = 25.5
   \<and> engagementTier (computeHealthScore 0 24 3 0 None) = ''Low''
   \<and> \<not> valid (validateHealthScore
        \<lparr>healthScore = healthScore (computeHealthScore 0 24 3 0 None),
         engagementTier = engagementTier (computeHealthScore 0 24 3 0 None),
         streakDays = 0, vibeCheckIns = 24, averageVibeScore = 3, loginCount = 0\<rparr>)
   \<and> errors (validateHealthScore
        \<lparr>healthScore = healthScore (computeHealthScore 0 24 3 0 None),
         engagementTier = engagementTier (computeHealthScore 0 24 3 0 None),
         streakDays = 0, vibeCheckIns = 24, averageVibeScore = 3, loginCount = 0\<rparr>) \<noteq> []"
proof -
  note t = computed_record_fails_validation
  from t have c: "computeHealthScore 0 24 3 0 None =
     \<lparr>healthScore = 25.5, engagementTier = ''Low'',
      breakdown = \<lparr>normStreak = 0, normVibe = 50, normLogins = 0, normCheckins = 80\<rparr>\<rparr>"
    by (rule conjunct1)
  from t have v: "validateHealthScore
        \<lparr>healthScore = healthScore (computeHealthScore 0 24 3 0 None),
         engagementTier = engagementTier (computeHealthScore 0 24 3 0 None),
         streakDays = 0, vibeCheckIns = 24, averageVibeScore = 3, loginCount = 0\<rparr> =
       \<lparr>valid = False, errors = [TierScoreMismatch ''Low'' 0 25 25.5]\<rparr>"
    by (rule conjunct2)
  show ?thesis by (simp add: v) (simp add: c)
qed

subsection \<open>The tier lookup of the user interface\<close>

lemma tierForScore_eq:
  "tierForScore x =
     (if 0 \<le> x \<and> x \<le> 25 then ENGAGEMENT_TIERS ! 0
      else if 26 \<le> x \<and> x \<le> 50 then ENGAGEMENT_TIERS ! 1
      else if 51 \<le> x \<and> x \<le> 75 then ENGAGEMENT_TIERS ! 2
      else if 76 \<le> x \<and> x \<le> 100 then ENGAGEMENT_TIERS ! 3
      else ENGAGEMENT_TIERS ! 0)"
  by (simp add: tierForScore_def ENGAGEMENT_TIERS_def)

lemma tiers_containing_int:
  fixes s :: int
  assumes "0 \<le> s" "s \<le> 100"
  shows "filter (\<lambda>t. tier_min t \<le> of_int s \<and> of_int s \<le> tier_max t) ENGAGEMENT_TIERS =
           [tierForScore (of_int s)]"
proof -
  consider "s \<le> 25" | "26 \<le> s" "s \<le> 50" | "51 \<le> s" "s \<le> 75" | "76 \<le> s"
    by linarith
  then show ?thesis
  proof cases
    case 1
    then show ?thesis using assms by (simp add: tierForScore_eq) (simp add: ENGAGEMENT_TIERS_def)
  next
    case 2
    then show ?thesis using assms by (simp add: tierForScore_eq) (simp add: ENGAGEMENT_TIERS_def)
  next
    case 3
    then show ?thesis using assms by (simp add: tierForScore_eq) (simp add: ENGAGEMENT_TIERS_def)
  next
    case 4
    then show ?thesis using assms by (simp add: tierForScore_eq) (simp add: ENGAGEMENT_TIERS_def)
  qed
qed

text \<open>
  Claim C6. For every integer score in [0, 100] exactly one entry of
  \<^verbatim>\<open>ENGAGEMENT_TIERS\<close> has the score within its bounds, and the lookup returns it; the
  table is the four distinct tiers Low 0-25, Moderate 26-50, High 51-75 and Excellent
  76-100; 25 is \<^verbatim>\<open>Low\<close> and 26 is \<^verbatim>\<open>Moderate\<close>; and for a score below 0 or above
  100 the lookup returns the first entry, \<^verbatim>\<open>Low\<close>.
\<close>

theorem tierForScore_partition:
  fixes s :: int and x :: real
  shows "(0 \<le> s \<and> s \<le> 100 \<longrightarrow>
            filter (\<lambda>t. tier_min t \<le> of_int s \<and> of_int s \<le> tier_max t) ENGAGEMENT_TIERS =
              [tierForScore (of_int s)])
       \<and> length ENGAGEMENT_TIERS = 4 \<and> distinct ENGAGEMENT_TIERS
       \<and> map (\<lambda>t. (tier_label t, tier_min t, tier_max t)) ENGAGEMENT_TIERS =
           [(''Low'', 0, 25), (''Moderate'', 26, 50), (''High'', 51, 75), (''Excellent'', 76, 100)]
       \<and> tier_label (tierForScore 25) = ''Low''
       \<and> tier_label (tierForScore 26) = ''Moderate''
       \<and> (x < 0 \<or> 100 < x \<longrightarrow>
            tierForScore x = ENGAGEMENT_TIERS ! 0 \<and> tier_label (tierForScore x) = ''Low'')"
proof -
  have a: "0 \<le> s \<and> s \<le> 100 \<longrightarrow>
            filter (\<lambda>t. tier_min t \<le> of_int s \<and> of_int s \<le> tier_max t) ENGAGEMENT_TIERS =
              [tierForScore (of_int s)]"
    using tiers_containing_int [of s] by simp
  have b: "length ENGAGEMENT_TIERS = 4"
    by (simp add: ENGAGEMENT_TIERS_def)
  have c: "distinct ENGAGEMENT_TIERS"
    by (simp add: ENGAGEMENT_TIERS_def)
  have d: "map (\<lambda>t. (tier_label t, tier_min t, tier_max t)) ENGAGEMENT_TIERS =
           [(''Low'', 0, 25), (''Moderate'', 26, 50), (''High'', 51, 75), (''Excellent'', 76, 100)]"
    by (simp add: ENGAGEMENT_TIERS_def)
  have e: "tier_label (tierForScore 25) = ''Low''"
    by (simp add: tierForScore_eq) (simp add: ENGAGEMENT_TIERS_def)
  have f: "tier_label (tierForScore 26) = ''Moderate''"
    by (simp add: tierForScore_eq) (simp add: ENGAGEMENT_TIERS_def)
  have g: "x < 0 \<or> 100 < x \<longrightarrow>
            tierForScore x = ENGAGEMENT_TIERS ! 0 \<and> tier_label (tierForScore x) = ''Low''"
    by (auto simp add: tierForScore_eq) (simp_all add: ENGAGEMENT_TIERS_def)
  show ?thesis
    by (intro conjI) (rule a b c d e f g)+
qed

text \<open>The score 60 lies in \<^verbatim>\<open>High\<close> only; 150 and -3 fall back to \<^verbatim>\<open>Low\<close>.\<close>

theorem tierForScore_partition_witness:
  "filter (\<lambda>t. tier_min t \<le> 60 \<and> 60 \<le> tier_max t) ENGAGEMENT_TIERS = [tierForScore 60]
   \<and> tier_label (tierForScore 60) = ''High''
   \<and> tier_label (tierForScore 150) = ''Low''
   \<and> tier_label (tierForScore (- 3)) = ''Low''"
  using tierForScore_partition [of 60 150] tierForScore_partition [of 60 "- 3"]
  by (simp add: tierForScore_eq) (simp add: ENGAGEMENT_TIERS_def)

subsection \<open>The check-in validator of the user interface\<close>

lemma VIBE_SCALE_values: "\<forall>e \<in> set VIBE_SCALE. 1 \<le> vibe_value e \<and> vibe_value e \<le> 5"
  by (simp add: VIBE_SCALE_def)

lemma find_in_set: "find P xs = Some x \<Longrightarrow> x \<in> set xs"
  by (induction xs) (auto split: if_splits)

text \<open>
  Claim C9. In the user interface's \<^verbatim>\<open>validateCheckIn\<close> the out-of-range error is
  never returned: for every value and label the result is valid with no error, or
  carries the unknown-label error, or carries the homomorphism error. Every canonical
  value of \<^verbatim>\<open>VIBE_SCALE\<close> lies in [1, 5], so a value that passes the homomorphism
  check is in range, and a valid result means a value in [1, 5].
\<close>

theorem validateCheckIn_range_branch_unreachable:
  "(\<forall>x. error (validateCheckIn v l) \<noteq> Some (OrdinalOutOfRange x))
   \<and> (valid (validateCheckIn v l) \<longleftrightarrow> error (validateCheckIn v l) = None)
   \<and> (error (validateCheckIn v l) = None
        \<or> error (validateCheckIn v l) = Some (UnknownMoodLabel l)
        \<or> (\<exists>c. error (validateCheckIn v l) = Some (HomomorphismBroken l c v)))
   \<and> (\<forall>e \<in> set VIBE_SCALE. 1 \<le> vibe_value e \<and> vibe_value e \<le> 5)
   \<and> (valid (validateCheckIn v l) \<longrightarrow> 1 \<le> v \<and> v \<le> 5)"
proof (cases "find (\<lambda>e. vibe_label e = l) VIBE_SCALE")
  case None
  then show ?thesis using VIBE_SCALE_values by (simp add: validateCheckIn_def)
next
  case (Some c)
  then have "c \<in> set VIBE_SCALE" by (rule find_in_set)
  then have "1 \<le> vibe_value c \<and> vibe_value c \<le> 5" using VIBE_SCALE_values by blast
  then show ?thesis using Some VIBE_SCALE_values by (simp add: validateCheckIn_def)
qed

text \<open>
  Value 4 with \<^verbatim>\<open>Good\<close> is valid; value 6 with \<^verbatim>\<open>Great\<close> gets the homomorphism
  error, not the range error.
\<close>

theorem validateCheckIn_range_branch_unreachable_witness:
  "valid (validateCheckIn 4 ''Good'') \<and> error (validateCheckIn 4 ''Good'') = None
   \<and> (1::real) \<le> 4 \<and> (4::real) \<le> 5
   \<and> error (validateCheckIn 6 ''Great'') = Some (HomomorphismBroken ''Great'' 5 6)"
  using validateCheckIn_range_branch_unreachable [of 4 "''Good''"]
  by (simp add: validateCheckIn_def VIBE_SCALE_def)

subsection \<open>The timestamp validator\<close>

lemma fold_push:
  "fold (\<lambda>i errs. if P i then errs @ [f i] else errs) xs acc = acc @ map f (filter P xs)"
  by (induction xs arbitrary: acc) simp_all

lemma timestamp_errors_eq:
  "errors (validateVibeTimestamps cs) =
     map (\<lambda>i. DuplicateTimestamp i (recordedAt (cs ! i)))
       (filter (\<lambda>i. recordedAt (cs ! i) = recordedAt (cs ! (i - 1))) [1..<length cs])"
  by (simp add: validateVibeTimestamps_def Let_def fold_push)

lemma timestamp_valid_eq:
  "valid (validateVibeTimestamps cs) \<longleftrightarrow> errors (validateVibeTimestamps cs) = []"
  by (simp add: validateVibeTimestamps_def Let_def)

lemma sorted_adjacent:
  assumes "sorted (map recordedAt cs)" "1 \<le> i" "i < length cs"
  shows "recordedAt (cs ! i) = recordedAt (cs ! (i - 1)) \<longleftrightarrow>
         (\<exists>j<i. recordedAt (cs ! j) = recordedAt (cs ! i))"
proof
  assume "recordedAt (cs ! i) = recordedAt (cs ! (i - 1))"
  moreover have "i - 1 < i" using assms(2) by simp
  ultimately show "\<exists>j<i. recordedAt (cs ! j) = recordedAt (cs ! i)" by metis
next
  assume "\<exists>j<i. recordedAt (cs ! j) = recordedAt (cs ! i)"
  then obtain j where j: "j < i" "recordedAt (cs ! j) = recordedAt (cs ! i)" by blast
  let ?ts = "map recordedAt cs"
  have "?ts ! j \<le> ?ts ! (i - 1)"
    using assms j by (intro sorted_nth_mono) simp_all
  moreover have "?ts ! (i - 1) \<le> ?ts ! i"
    using assms by (intro sorted_nth_mono) simp_all
  moreover have "?ts ! j = recordedAt (cs ! j)" "?ts ! i = recordedAt (cs ! i)"
    "?ts ! (i - 1) = recordedAt (cs ! (i - 1))"
    using assms j by simp_all
  ultimately show "recordedAt (cs ! i) = recordedAt (cs ! (i - 1))"
    using j(2) by linarith
qed

lemma filter_from_zero:
  "\<not> P 0 \<Longrightarrow> filter P [0..<n] = filter P [1..<n]"
  by (simp add: upt_rec [of 0 n])

lemma duplicate_indices:
  assumes "sorted (map recordedAt cs)"
  shows "filter (\<lambda>i. recordedAt (cs ! i) = recordedAt (cs ! (i - 1))) [1..<length cs] =
         filter (\<lambda>i. \<exists>j<i. recordedAt (cs ! j) = recordedAt (cs ! i)) [0..<length cs]"
proof -
  have "filter (\<lambda>i. recordedAt (cs ! i) = recordedAt (cs ! (i - 1))) [1..<length cs] =
        filter (\<lambda>i. \<exists>j<i. recordedAt (cs ! j) = recordedAt (cs ! i)) [1..<length cs]"
    using assms by (intro filter_cong refl sorted_adjacent) simp_all
  also have "\<dots> = filter (\<lambda>i. \<exists>j<i. recordedAt (cs ! j) = recordedAt (cs ! i)) [0..<length cs]"
    by (rule filter_from_zero [symmetric]) simp
  finally show ?thesis .
qed

lemma no_duplicate_indices:
  "filter (\<lambda>i. \<exists>j<i. xs ! j = xs ! i) [0..<length xs] = [] \<longleftrightarrow> distinct xs"
proof
  assume e: "filter (\<lambda>i. \<exists>j<i. xs ! j = xs ! i) [0..<length xs] = []"
  then have n: "\<And>i j. i < length xs \<Longrightarrow> j < i \<Longrightarrow> xs ! j \<noteq> xs ! i"
    by (auto simp add: filter_empty_conv)
  show "distinct xs"
    unfolding distinct_conv_nth
  proof (intro allI impI)
    fix i j assume "i < length xs" "j < length xs" "i \<noteq> j"
    then consider "i < j" | "j < i" by linarith
    then show "xs ! i \<noteq> xs ! j"
    proof cases
      case 1
      then show ?thesis using n [of j i] \<open>j < length xs\<close> by simp
    next
      case 2
      then show ?thesis using n [of i j] \<open>i < length xs\<close> by metis
    qed
  qed
next
  assume "distinct xs"
  then show "filter (\<lambda>i. \<exists>j<i. xs ! j = xs ! i) [0..<length xs] = []"
    by (auto simp add: filter_empty_conv distinct_conv_nth)
qed

text \<open>
  Claim C8. For check-ins in non-decreasing order of \<^verbatim>\<open>recordedAt\<close>, the result is
  valid exactly when the instants are pairwise distinct (and exactly when the error list
  is empty), and the error list holds, in order and once each, one duplicate-timestamp
  error for every index whose instant already occurs at an earlier index, carrying that
  index and instant.
\<close>

theorem validateVibeTimestamps_duplicates:
  assumes "sorted (map recordedAt cs)"
  shows "(valid (validateVibeTimestamps cs) \<longleftrightarrow> distinct (map recordedAt cs))
       \<and> (valid (validateVibeTimestamps cs) \<longleftrightarrow> errors (validateVibeTimestamps cs) = [])
       \<and> errors (validateVibeTimestamps cs) =
           map (\<lambda>i. DuplicateTimestamp i (recordedAt (cs ! i)))
             (filter (\<lambda>i. \<exists>j<i. recordedAt (cs ! j) = recordedAt (cs ! i)) [0..<length cs])"
proof -
  have e: "errors (validateVibeTimestamps cs) =
           map (\<lambda>i. DuplicateTimestamp i (recordedAt (cs ! i)))
             (filter (\<lambda>i. \<exists>j<i. recordedAt (cs ! j) = recordedAt (cs ! i)) [0..<length cs])"
    by (simp only: timestamp_errors_eq duplicate_indices [OF assms])
  have "filter (\<lambda>i. \<exists>j<i. recordedAt (cs ! j) = recordedAt (cs ! i)) [0..<length cs] =
        filter (\<lambda>i. \<exists>j<i. map recordedAt cs ! j = map recordedAt cs ! i)
          [0..<length (map recordedAt cs)]"
    by (intro filter_cong) auto
  then have "errors (validateVibeTimestamps cs) = [] \<longleftrightarrow> distinct (map recordedAt cs)"
    unfolding e using no_duplicate_indices [of "map recordedAt cs"] by simp
  then show ?thesis using e timestamp_valid_eq [of cs] by simp
qed

text \<open>Instants 100, 100, 200: one error, at index 1.\<close>

theorem validateVibeTimestamps_duplicates_witness:
  "sorted (map recordedAt
      [\<lparr>moodValue = 4, moodLabel = ''Good'', recordedAt = 100\<rparr>,
       \<lparr>moodValue = 2, moodLabel = ''Down'', recordedAt = 100\<rparr>,
       \<lparr>moodValue = 5, moodLabel = ''Great'', recordedAt = 200\<rparr>])
   \<and> validateVibeTimestamps
      [\<lparr>moodValue = 4, moodLabel = ''Good'', recordedAt = 100\<rparr>,
       \<lparr>moodValue = 2, moodLabel = ''Down'', recordedAt = 100\<rparr>,
       \<lparr>moodValue = 5, moodLabel = ''Great'', recordedAt = 200\<rparr>] =
     \<lparr>valid = False, errors = [DuplicateTimestamp 1 100]\<rparr>
   \<and> \<not> distinct (map recordedAt
      [\<lparr>moodValue = 4, moodLabel = ''Good'', recordedAt = 100\<rparr>,
       \<lparr>moodValue = 2, moodLabel = ''Down'', recordedAt = 100\<rparr>,
       \<lparr>moodValue = 5, moodLabel = ''Great'', recordedAt = 200\<rparr>])"
  using validateVibeTimestamps_duplicates [of "[\<lparr>moodValue = 4, moodLabel = ''Good'', recordedAt = 100\<rparr>,
       \<lparr>moodValue = 2, moodLabel = ''Down'', recordedAt = 100\<rparr>,
       \<lparr>moodValue = 5, moodLabel = ''Great'', recordedAt = 200\<rparr>]"]
  by (simp add: validateVibeTimestamps_def Let_def upt_conv_Cons)

end
